theory Spec2Isabelle
  imports Complex_Main
begin

section \<open>Strings and numbers of the host language\<close>

text \<open>
  A JavaScript string is a sequence of UTF-16 code units; the regular expression of the
  marker extractor has no \<^verbatim>\<open>u\<close> flag and therefore works on code units. A code unit
  is modelled by its number. Literals of the source that are plain ASCII are written
  through \<open>js\<close>.
\<close>

type_synonym jsstring = "nat list"

definition js :: "string \<Rightarrow> jsstring" where
  "js s = map of_char s"

text \<open>\<^verbatim>\<open>String(n)\<close> and template interpolation of a non-negative integer: its decimal
  digits (for the integers that occur here, page numbers and version components).\<close>

fun String_nat :: "nat \<Rightarrow> jsstring" where
  "String_nat n = (if n < 10 then [48 + n] else String_nat (n div 10) @ [48 + n mod 10])"

declare String_nat.simps [simp del]

text \<open>
  Character classes of the regular expression (no \<^verbatim>\<open>i\<close>, \<^verbatim>\<open>u\<close> or \<^verbatim>\<open>m\<close> flag):
  \<^verbatim>\<open>\w\<close> is \<^verbatim>\<open>[A-Za-z0-9_]\<close>, the label class is \<^verbatim>\<open>[A-Z0-9_.]\<close>, and \<^verbatim>\<open>\s\<close> is the
  language's white space and line terminators (TAB, LF, VT, FF, CR, SP, NBSP, U+1680,
  U+2000..U+200A, U+2028, U+2029, U+202F, U+205F, U+3000, U+FEFF). The same set is what
  \<^verbatim>\<open>parseFloat\<close> strips from the start of its argument.
\<close>

definition is_digit :: "nat \<Rightarrow> bool" where
  "is_digit c = (48 \<le> c \<and> c \<le> 57)"

definition is_upper :: "nat \<Rightarrow> bool" where
  "is_upper c = (65 \<le> c \<and> c \<le> 90)"

definition is_lower :: "nat \<Rightarrow> bool" where
  "is_lower c = (97 \<le> c \<and> c \<le> 122)"

definition is_word :: "nat \<Rightarrow> bool" where
  "is_word c = (is_upper c \<or> is_lower c \<or> is_digit c \<or> c = 95)"

definition is_label :: "nat \<Rightarrow> bool" where
  "is_label c = (is_upper c \<or> is_digit c \<or> c = 95 \<or> c = 46)"

definition is_space :: "nat \<Rightarrow> bool" where
  "is_space c = (c \<in> set [9, 10, 11, 12, 13, 32, 160, 5760, 8232, 8233, 8239, 8287, 12288, 65279]
                 \<or> (8192 \<le> c \<and> c \<le> 8202))"

text \<open>Matching a literal at the start of a string: the rest after it, if it is there.\<close>

fun literal :: "jsstring \<Rightarrow> jsstring \<Rightarrow> jsstring option" where
  "literal [] s = Some s"
| "literal (p # ps) [] = None"
| "literal (p # ps) (c # cs) = (if p = c then literal ps cs else None)"

text \<open>
  A value of the language's Number type: \<^verbatim>\<open>NaN\<close>, an infinity with its sign (\<open>True\<close> is
  positive) or a finite number, carried as the rational it denotes. The two zeros are
  not told apart (nothing here divides by a zero or prints one).
\<close>

datatype jsnum = NaN | Infty bool | Num rat

text \<open>
  Negation, sum and difference, as the overlay uses them on page sizes, margins and text
  widths: \<^verbatim>\<open>NaN\<close> is absorbing and \<open>\<infinity> - \<infinity>\<close> is \<^verbatim>\<open>NaN\<close>; on finite numbers the result
  is the exact one (the rounding of a sum is not modelled).
\<close>

fun num_neg :: "jsnum \<Rightarrow> jsnum" where
  "num_neg NaN = NaN"
| "num_neg (Infty s) = Infty (\<not> s)"
| "num_neg (Num x) = Num (- x)"

fun num_add :: "jsnum \<Rightarrow> jsnum \<Rightarrow> jsnum" where
  "num_add (Num x) (Num y) = Num (x + y)"
| "num_add (Infty s) (Infty t) = (if s = t then Infty s else NaN)"
| "num_add (Infty s) (Num y) = Infty s"
| "num_add (Num x) (Infty t) = Infty t"
| "num_add NaN b = NaN"
| "num_add a NaN = NaN"

definition num_sub :: "jsnum \<Rightarrow> jsnum \<Rightarrow> jsnum" where
  "num_sub a b = num_add a (num_neg b)"

text \<open>
  A literal and a product are rounded to the nearest IEEE 754 double, ties to even:
  \<open>fl q\<close> is the Number value for the rational \<open>q\<close>. For \<open>a > 0\<close>, \<open>log2_floor a\<close> is the
  exponent \<open>e\<close> with \<open>2 ^ e \<le> a < 2 ^ (e + 1)\<close>; the spacing of the doubles around \<open>a\<close>
  is \<open>2 ^ (e - 52)\<close>, and \<open>2 ^ (- 1074)\<close> below the smallest normal number; a result of
  \<open>2 ^ 1024\<close> or more is an infinity.
\<close>

fun bit_length :: "nat \<Rightarrow> nat" where
  "bit_length n = (if n = 0 then 0 else Suc (bit_length (n div 2)))"

declare bit_length.simps [simp del]

definition log2_floor :: "rat \<Rightarrow> int" where
  "log2_floor a = (if 1 \<le> a then int (bit_length (nat \<lfloor>a\<rfloor>)) - 1
                   else - int (bit_length (nat (\<lceil>1 / a\<rceil> - 1))))"

definition round_half_even :: "rat \<Rightarrow> int" where
  "round_half_even x =
     (let f = \<lfloor>x\<rfloor>; d = x - of_int f in
      if d < 1 / 2 then f else if 1 / 2 < d then f + 1 else if even f then f else f + 1)"

definition fl_pos :: "rat \<Rightarrow> rat" where
  "fl_pos a =
     (let e = max (log2_floor a) (- 1022) - 52 in
      if 0 \<le> e then of_int (round_half_even (a / 2 ^ nat e)) * 2 ^ nat e
      else of_int (round_half_even (a * 2 ^ nat (- e))) / 2 ^ nat (- e))"

definition fl :: "rat \<Rightarrow> jsnum" where
  "fl q =
     (if q = 0 then Num 0
      else let r = fl_pos \<bar>q\<bar> in
        if 2 ^ 1024 \<le> r then Infty (0 < q) else Num (if 0 < q then r else - r))"

text \<open>
  The product \<^verbatim>\<open>a * b\<close>: \<^verbatim>\<open>NaN\<close> is absorbing, \<open>0 * \<infinity>\<close> is \<^verbatim>\<open>NaN\<close>, and the product of
  two finite numbers is the exact product rounded.
\<close>

fun num_mul :: "jsnum \<Rightarrow> jsnum \<Rightarrow> jsnum" where
  "num_mul (Num x) (Num y) = fl (x * y)"
| "num_mul (Infty s) (Infty t) = Infty (s = t)"
| "num_mul (Infty s) (Num y) = (if y = 0 then NaN else Infty (s = (0 < y)))"
| "num_mul (Num x) (Infty t) = (if x = 0 then NaN else Infty ((0 < x) = t))"
| "num_mul NaN b = NaN"
| "num_mul a NaN = NaN"

text \<open>Division by the literal 2, the only division of the source; halving a double
  is exact (but for the smallest subnormal numbers).\<close>

fun num_half :: "jsnum \<Rightarrow> jsnum" where
  "num_half NaN = NaN"
| "num_half (Infty s) = Infty s"
| "num_half (Num x) = Num (x / 2)"

text \<open>
  The built-in \<^verbatim>\<open>parseFloat\<close>: leading white space is dropped, then the longest prefix
  that is a decimal literal is read (an optional sign; \<^verbatim>\<open>Infinity\<close>, or digits with an
  optional fraction, or a dot followed by digits; an optional exponent, taken only when
  it has a digit). Whatever follows that prefix, a unit suffix for instance, is ignored.
  The result is the Number value of the literal, that is its mathematical value rounded.
  When there is no such prefix the result is \<^verbatim>\<open>NaN\<close>; nothing is thrown.
\<close>

definition digits_val :: "jsstring \<Rightarrow> nat" where
  "digits_val ds = foldl (\<lambda>a c. 10 * a + (c - 48)) 0 ds"

definition split_sign :: "jsstring \<Rightarrow> bool \<times> jsstring" where
  "split_sign s =
     (case s of
        [] \<Rightarrow> (True, [])
      | c # cs \<Rightarrow> if c = 43 then (True, cs) else if c = 45 then (False, cs) else (True, s))"

definition exponent_part :: "jsstring \<Rightarrow> int" where
  "exponent_part s =
     (case s of
        [] \<Rightarrow> 0
      | c # cs \<Rightarrow>
          if c = 101 \<or> c = 69 then
            (let (pos, ds) = split_sign cs; ed = takeWhile is_digit ds in
             if ed = [] then 0
             else if pos then int (digits_val ed) else - int (digits_val ed))
          else 0)"

definition parseFloat :: "jsstring \<Rightarrow> jsnum" where
  "parseFloat inputString =
     (let (pos, s1) = split_sign (dropWhile is_space inputString) in
      if literal (js ''Infinity'') s1 \<noteq> None then Infty pos
      else
        let ip = takeWhile is_digit s1;
            s2 = dropWhile is_digit s1;
            (fp, s3) =
              (case s2 of
                 [] \<Rightarrow> ([], [])
               | c # cs \<Rightarrow>
                   if c = 46 \<and> (ip \<noteq> [] \<or> (cs \<noteq> [] \<and> is_digit (hd cs)))
                   then (takeWhile is_digit cs, dropWhile is_digit cs)
                   else ([], s2))
        in if ip = [] \<and> fp = [] then NaN
           else
             let m = of_nat (digits_val ip) + of_nat (digits_val fp) / 10 ^ length fp;
                 e = exponent_part s3;
                 v = (if 0 \<le> e then m * 10 ^ nat e else m / 10 ^ nat (- e))
             in fl (if pos then v else - v))"

text \<open>\<^verbatim>\<open>function cmToPt(val) { return parseFloat(val) * 28.35; }\<close>, with the
  literal \<^verbatim>\<open>28.35\<close> as the double it denotes.\<close>

definition cmToPt :: "jsstring \<Rightarrow> jsnum" where
  "cmToPt val = num_mul (parseFloat val) (fl (2835 / 100))"













text \<open>A scan by a character class stops at a text: the text is empty or its first
  character is outside the class.\<close>

definition stops :: "(nat \<Rightarrow> bool) \<Rightarrow> jsstring \<Rightarrow> bool" where
  "stops P ys = (case ys of [] \<Rightarrow> True | y # _ \<Rightarrow> \<not> P y)"

section \<open>Version counter\<close>

text \<open>
  \<^verbatim>\<open>interface VersionMeta { major: number; minor: number; patch: number }\<close>.
  The components are non-negative integers (counters that start at 0 and are only
  ever incremented), modelled as natural numbers.
\<close>

record VersionMeta =
  major :: nat
  minor :: nat
  patch :: nat

text \<open>
  \<^verbatim>\<open>function bumpVersion(v, bump)\<close> of \<^verbatim>\<open>src/index.ts\<close> and of the publish script. At run
  time the bump kind is an arbitrary string (the TypeScript annotation \<^verbatim>\<open>BumpType\<close> is a
  cast of a query parameter; the script passes \<^verbatim>\<open>process.argv[2]\<close>), so it is a string
  here, compared with \<^verbatim>\<open>===\<close>.
\<close>

definition bumpVersion :: "VersionMeta \<Rightarrow> jsstring \<Rightarrow> VersionMeta" where
  "bumpVersion v bump =
     (if bump = js ''major'' then \<lparr>major = major v + 1, minor = 0, patch = 0\<rparr>
      else if bump = js ''minor'' then \<lparr>major = major v, minor = minor v + 1, patch = 0\<rparr>
      else \<lparr>major = major v, minor = minor v, patch = patch v + 1\<rparr>)"

text \<open>\<^verbatim>\<open>ver(v)\<close> / \<^verbatim>\<open>versionString(v)\<close>: \<^verbatim>\<open>`${v.major}.${v.minor}.${v.patch}`\<close>.\<close>

definition ver :: "VersionMeta \<Rightarrow> jsstring" where
  "ver v = String_nat (major v) @ js ''.'' @ String_nat (minor v) @ js ''.'' @ String_nat (patch v)"

text \<open>\<^verbatim>\<open>r2Key(version)\<close>: \<^verbatim>\<open>`manual-v${version}.pdf`\<close>; the script writes the same object
  name into the bucket.\<close>

definition r2Key :: "jsstring \<Rightarrow> jsstring" where
  "r2Key version = js ''manual-v'' @ version @ js ''.pdf''"

section \<open>Marker extractor\<close>

text \<open>
  \<^verbatim>\<open>const MARKER_RE = /FWMARK-(\w+?)(?:-([A-Z0-9_.]+))?(?=\s|$)/g;\<close>

  The expression is embedded as the backtracking search the engine performs at one start
  position, alternatives in the engine's order of preference. Each function gets the
  rest of the text and returns what was captured together with the rest after the match.

  \<^item> \<open>lookahead\<close> is \<^verbatim>\<open>(?=\s|$)\<close>: the rest is empty or starts with white space. It
    consumes nothing.
  \<^item> \<open>label_try\<close> is the greedy \<^verbatim>\<open>[A-Z0-9_.]+\<close> followed by the lookahead: it first takes
    one more label character and only when that fails stops where it is (at least one
    character taken).
  \<^item> \<open>opt_group\<close> is the greedy optional group \<^verbatim>\<open>(?:-(...))?\<close> followed by the lookahead:
    first with the group, then without it.
  \<^item> \<open>id_try\<close> is the lazy \<^verbatim>\<open>(\w+?)\<close> followed by the rest of the expression: it takes one
    word character, tries the rest, and takes a further character only when that fails.
\<close>

fun lookahead :: "jsstring \<Rightarrow> bool" where
  "lookahead [] = True"
| "lookahead (c # cs) = is_space c"

fun label_try :: "jsstring \<Rightarrow> jsstring \<Rightarrow> (jsstring \<times> jsstring) option" where
  "label_try acc [] = (if acc \<noteq> [] then Some (acc, []) else None)"
| "label_try acc (c # cs) =
     (case (if is_label c then label_try (acc @ [c]) cs else None) of
        Some r \<Rightarrow> Some r
      | None \<Rightarrow> if acc \<noteq> [] \<and> lookahead (c # cs) then Some (acc, c # cs) else None)"

definition opt_group :: "jsstring \<Rightarrow> (jsstring option \<times> jsstring) option" where
  "opt_group s =
     (case (case literal (js ''-'') s of Some s' \<Rightarrow> label_try [] s' | None \<Rightarrow> None) of
        Some (l, r) \<Rightarrow> Some (Some l, r)
      | None \<Rightarrow> if lookahead s then Some (None, s) else None)"

fun id_try :: "jsstring \<Rightarrow> jsstring \<Rightarrow> (jsstring \<times> jsstring option \<times> jsstring) option" where
  "id_try acc [] = None"
| "id_try acc (c # cs) =
     (if is_word c then
        (case opt_group cs of
           Some (l, r) \<Rightarrow> Some (acc @ [c], l, r)
         | None \<Rightarrow> id_try (acc @ [c]) cs)
      else None)"

text \<open>One attempt of the expression at the start of \<open>s\<close>: capture group 1 (the id),
  capture group 2 (the label, \<open>None\<close> for \<^verbatim>\<open>undefined\<close>) and the text after the match.\<close>

definition MARKER_RE :: "jsstring \<Rightarrow> (jsstring \<times> jsstring option \<times> jsstring) option" where
  "MARKER_RE s = (case literal (js ''FWMARK-'') s of Some s' \<Rightarrow> id_try [] s' | None \<Rightarrow> None)"

lemma literal_Some: "literal p s = Some r \<longleftrightarrow> s = p @ r"
  by (induction p s rule: literal.induct) auto

lemma label_try_length: "label_try acc s = Some (l, r) \<Longrightarrow> length r \<le> length s"
  by (induction acc s rule: label_try.induct) (auto split: if_splits option.splits)

lemma opt_group_length: "opt_group s = Some (l, r) \<Longrightarrow> length r \<le> length s"
  by (auto simp: opt_group_def literal_Some dest!: label_try_length split: option.splits if_splits)

lemma id_try_length: "id_try acc s = Some (i, l, r) \<Longrightarrow> length r < length s"
  by (induction acc s rule: id_try.induct)
     (auto split: if_splits option.splits dest!: opt_group_length)

lemma MARKER_RE_length: "MARKER_RE s = Some (i, l, r) \<Longrightarrow> length r < length s"
  by (auto simp: MARKER_RE_def literal_Some split: option.splits dest!: id_try_length)

text \<open>
  \<^verbatim>\<open>pageTexts[i].matchAll(MARKER_RE)\<close>: the global scan. The expression is tried at the
  current position; after a match the scan resumes at the end of the match (a match is
  never empty), otherwise one code unit further on. The pairs are the captures of the
  matches, in order.
\<close>

function matchAll :: "jsstring \<Rightarrow> (jsstring \<times> jsstring option) list" where
  "matchAll [] = []"
| "matchAll (c # cs) =
     (case MARKER_RE (c # cs) of
        Some (i, l, r) \<Rightarrow> (i, l) # matchAll r
      | None \<Rightarrow> matchAll cs)"
  by pat_completeness auto
termination
  by (relation "measure length") (auto dest: MARKER_RE_length)

section \<open>Section map\<close>

text \<open>\<^verbatim>\<open>{ id, label, startPage }\<close>, the entries of the array \<^verbatim>\<open>extractSectionMap\<close> returns.\<close>

record SectionMarker =
  marker_id :: jsstring
  label :: jsstring
  startPage :: nat

text \<open>The title \<^verbatim>\<open>'INDICE DE CONTENIDOS'\<close> of the source, whose first letter is U+00CD
  (I with acute accent), code unit 205.\<close>

definition TOC_TITLE :: jsstring where
  "TOC_TITLE = 205 # js ''NDICE DE CONTENIDOS''"

text \<open>\<^verbatim>\<open>label ?? (id === 'TOC' ? TITLE : id)\<close>\<close>

definition resolve_label :: "jsstring \<Rightarrow> jsstring option \<Rightarrow> jsstring" where
  "resolve_label i l = (case l of Some x \<Rightarrow> x | None \<Rightarrow> if i = js ''TOC'' then TOC_TITLE else i)"

text \<open>The inner loop of \<^verbatim>\<open>extractSectionMap\<close>: the entries pushed for one page.\<close>

definition page_markers :: "nat \<Rightarrow> jsstring \<Rightarrow> SectionMarker list" where
  "page_markers pageNum t =
     map (\<lambda>(i, l). \<lparr>marker_id = i, label = resolve_label i l, startPage = pageNum\<rparr>) (matchAll t)"

text \<open>The outer loop \<^verbatim>\<open>for (let i = 0; i < pageTexts.length; i++)\<close>: \<open>i\<close> is the index of
  the first page text still to scan, \<open>acc\<close> the array \<^verbatim>\<open>map\<close> so far.\<close>

fun scan_pages :: "nat \<Rightarrow> jsstring list \<Rightarrow> SectionMarker list \<Rightarrow> SectionMarker list" where
  "scan_pages i [] acc = acc"
| "scan_pages i (t # ts) acc = scan_pages (i + 1) ts (acc @ page_markers (i + 1) t)"

text \<open>
  \<^verbatim>\<open>extractSectionMap\<close>, from the per-page texts that the PDF parser collected:
  the scan, then \<^verbatim>\<open>map.sort((a, b) => a.startPage - b.startPage)\<close>.
  \<^verbatim>\<open>Array.prototype.sort\<close> is a stable sort; \<open>sort_key\<close> is one (insertion sort).
\<close>

definition extractSectionMap :: "jsstring list \<Rightarrow> SectionMarker list" where
  "extractSectionMap pageTexts = sort_key startPage (scan_pages 0 pageTexts [])"

text \<open>
  \<^verbatim>\<open>getLabelForPage(sectionMap, pageNum)\<close>: the loop
  \<^verbatim>\<open>for (let i = sectionMap.length - 1; i >= 0; i--)\<close>. The second argument of
  \<open>label_scan\<close> is \<open>i + 1\<close>, the number of entries not yet looked at; \<open>None\<close> is \<^verbatim>\<open>null\<close>.
\<close>

fun label_scan :: "SectionMarker list \<Rightarrow> nat \<Rightarrow> nat \<Rightarrow> jsstring option" where
  "label_scan sectionMap 0 pageNum = None"
| "label_scan sectionMap (Suc i) pageNum =
     (if pageNum \<ge> startPage (sectionMap ! i) then Some (label (sectionMap ! i))
      else label_scan sectionMap i pageNum)"

definition getLabelForPage :: "SectionMarker list \<Rightarrow> nat \<Rightarrow> jsstring option" where
  "getLabelForPage sectionMap pageNum = label_scan sectionMap (length sectionMap) pageNum"

section \<open>Header and footer overlay\<close>

text \<open>
  A colour is the value \<^verbatim>\<open>hexToRgb(hex)\<close> of a configured hex string; colours are carried
  through uninterpreted. The configuration \<^verbatim>\<open>pdf.config.json\<close> is not part of the
  sources; its fields are the ones the script reads (\<^verbatim>\<open>cfg.page\<close>, \<^verbatim>\<open>cfg.header\<close>,
  \<^verbatim>\<open>cfg.pageNumber\<close>).
\<close>

datatype rgb = hexToRgb jsstring

record pdf_config =
  page_format :: jsstring
  margin_top :: jsstring
  margin_right :: jsstring
  margin_bottom :: jsstring
  margin_left :: jsstring
  header_textColor :: jsstring
  header_borderColor :: jsstring
  header_fontSize :: jsnum
  header_sectionPrefix :: jsstring
  pageNumber_color :: jsstring
  pageNumber_fontSize :: jsnum
  pageNumber_yFromBottom :: jsstring

text \<open>The constants computed once before the page loop.\<close>

record layout =
  textColor :: rgb
  borderColor :: rgb
  pnColor :: rgb
  hFontSize :: jsnum
  pnFontSize :: jsnum
  topMarginPt :: jsnum
  bottomMarginPt :: jsnum
  sideMarginPt :: jsnum
  yPnPt :: jsnum
  sectionPrefix :: jsstring

definition layout_of :: "pdf_config \<Rightarrow> layout" where
  "layout_of cfg =
     \<lparr>textColor = hexToRgb (header_textColor cfg),
      borderColor = hexToRgb (header_borderColor cfg),
      pnColor = hexToRgb (pageNumber_color cfg),
      hFontSize = header_fontSize cfg,
      pnFontSize = pageNumber_fontSize cfg,
      topMarginPt = cmToPt (margin_top cfg),
      bottomMarginPt = cmToPt (margin_bottom cfg),
      sideMarginPt = cmToPt (margin_left cfg),
      yPnPt = cmToPt (pageNumber_yFromBottom cfg),
      sectionPrefix = header_sectionPrefix cfg\<rparr>"

text \<open>
  A page is its size and its content, the sequence of drawing operations. What the
  renderer produced is whatever stands in \<open>content\<close> before the overlay; \<^verbatim>\<open>drawText\<close> and
  \<^verbatim>\<open>drawLine\<close> append. \<open>DrawText text x y size color\<close> and
  \<open>DrawLine start.x start.y end.x end.y thickness color\<close> carry the options of the call;
  the font is always the embedded Courier.
\<close>

datatype draw_op =
    DrawText jsstring jsnum jsnum jsnum rgb
  | DrawLine jsnum jsnum jsnum jsnum jsnum rgb

record page =
  width :: jsnum
  height :: jsnum
  content :: "draw_op list"


text \<open>
  The body of the page loop after the cover-page guard: the five drawing calls for page
  \<open>pageNum\<close> of size \<open>W\<close> by \<open>H\<close> with section label \<open>lab\<close>. The text measure
  \<^verbatim>\<open>font.widthOfTextAtSize\<close> belongs to the PDF library and is a parameter.
\<close>

definition overlay_ops ::
  "(jsstring \<Rightarrow> jsnum \<Rightarrow> jsnum) \<Rightarrow> layout \<Rightarrow> jsstring \<Rightarrow> jsstring \<Rightarrow> nat \<Rightarrow> jsnum \<Rightarrow> jsnum \<Rightarrow> draw_op list" where
  "overlay_ops widthOfTextAtSize L version lab pageNum W H =
     (let isRecto = (pageNum mod 2 = 1);
          headerLineY = num_sub H (topMarginPt L);
          hTextY = num_add headerLineY (num_half (num_sub (topMarginPt L) (hFontSize L)));
          sectionText = sectionPrefix L @ lab;
          versionText = js ''v'' @ version;
          sectionW = widthOfTextAtSize sectionText (hFontSize L);
          versionW = widthOfTextAtSize versionText (hFontSize L);
          pnText = String_nat pageNum;
          pnW = widthOfTextAtSize pnText (pnFontSize L)
      in (if isRecto then
            [DrawText sectionText (num_sub (num_sub W (sideMarginPt L)) sectionW) hTextY (hFontSize L) (textColor L),
             DrawText versionText (sideMarginPt L) hTextY (hFontSize L) (textColor L),
             DrawText pnText (num_sub (num_sub W (sideMarginPt L)) pnW) (yPnPt L) (pnFontSize L) (pnColor L)]
          else
            [DrawText sectionText (sideMarginPt L) hTextY (hFontSize L) (textColor L),
             DrawText versionText (num_sub (num_sub W (sideMarginPt L)) versionW) hTextY (hFontSize L) (textColor L),
             DrawText pnText (sideMarginPt L) (yPnPt L) (pnFontSize L) (pnColor L)])
         @ [DrawLine (Num 0) headerLineY W headerLineY (Num (3 / 4)) (borderColor L),
            DrawLine (Num 0) (bottomMarginPt L) W (bottomMarginPt L) (Num (3 / 4)) (borderColor L)])"

text \<open>The callback of \<^verbatim>\<open>pdfDoc.getPages().forEach((p, i) => ...)\<close>. The guard
  \<^verbatim>\<open>if (!label) return;\<close> leaves the page alone for \<^verbatim>\<open>null\<close> and for the empty string.\<close>

definition overlay_page ::
  "(jsstring \<Rightarrow> jsnum \<Rightarrow> jsnum) \<Rightarrow> layout \<Rightarrow> jsstring \<Rightarrow> SectionMarker list \<Rightarrow> page \<Rightarrow> nat \<Rightarrow> page" where
  "overlay_page widthOfTextAtSize L version sectionMap p i =
     (let pageNum = i + 1 in
      case getLabelForPage sectionMap pageNum of
        None \<Rightarrow> p
      | Some lab \<Rightarrow>
          if lab = [] then p
          else p\<lparr>content := content p @ overlay_ops widthOfTextAtSize L version lab pageNum (width p) (height p)\<rparr>)"

fun overlay_pages ::
  "(jsstring \<Rightarrow> jsnum \<Rightarrow> jsnum) \<Rightarrow> layout \<Rightarrow> jsstring \<Rightarrow> SectionMarker list \<Rightarrow> nat \<Rightarrow> page list \<Rightarrow> page list" where
  "overlay_pages widthOfTextAtSize L version sectionMap i [] = []"
| "overlay_pages widthOfTextAtSize L version sectionMap i (p # ps) =
     overlay_page widthOfTextAtSize L version sectionMap p i
       # overlay_pages widthOfTextAtSize L version sectionMap (i + 1) ps"

section \<open>Two-pass pagination\<close>

text \<open>
  The collaborators of the pagination driver. An error is the message of the exception.
  The document in the browser is seen through the text of its elements by id (the only
  part the script touches). \<open>goto_ready\<close> is launching the browser, \<^verbatim>\<open>page.goto\<close> and
  \<^verbatim>\<open>page.waitForSelector\<close>; \<open>page_pdf\<close> is \<^verbatim>\<open>page.pdf(pdfOpts)\<close> on the current document,
  which gives the pages (as the PDF library loads them) and the per-page texts (as the
  PDF parser extracts them). Each may throw.
\<close>

type_synonym exn = jsstring

type_synonym dom = "jsstring \<rightharpoonup> jsstring"

record rendered =
  pdf_pages :: "page list"
  pdf_texts :: "jsstring list"

record browser =
  goto_ready :: "exn + dom"
  page_pdf :: "dom \<Rightarrow> exn + rendered"
  widthOfTextAtSize :: "jsstring \<Rightarrow> jsnum \<Rightarrow> jsnum"

text \<open>The function passed to \<^verbatim>\<open>page.evaluate\<close>: for every \<^verbatim>\<open>{ num, startPage }\<close>, the
  element \<^verbatim>\<open>toc-pn-<num>\<close>, when it exists, gets the page number as its text.\<close>

fun inject_toc :: "dom \<Rightarrow> (jsstring \<times> nat) list \<Rightarrow> dom" where
  "inject_toc d [] = d"
| "inject_toc d ((num, sp) # sections) =
     inject_toc (case d (js ''toc-pn-'' @ num) of
                   Some el \<Rightarrow> d(js ''toc-pn-'' @ num \<mapsto> String_nat sp)
                 | None \<Rightarrow> d) sections"

text \<open>What a run leaves behind, in order: the page-count warning on the console, the
  object written to the bucket, the version written to the key-value store.\<close>

datatype event =
    Warn_page_count nat nat
  | R2_put jsstring
  | KV_put VersionMeta

text \<open>
  The \<^verbatim>\<open>try\<close> block of the script: pass 1, the section map, the injection of page numbers,
  pass 2, the comparison of the page counts and the overlay on the pages of pass 2. The
  result is the warnings and the pages of the final PDF, or the exception.
\<close>

definition generate :: "browser \<Rightarrow> pdf_config \<Rightarrow> jsstring \<Rightarrow> exn + (event list \<times> page list)" where
  "generate b cfg version =
     (case goto_ready b of
        Inl e \<Rightarrow> Inl e
      | Inr d \<Rightarrow>
          (case page_pdf b d of
             Inl e \<Rightarrow> Inl e
           | Inr pass1Pdf \<Rightarrow>
               let sectionMap = extractSectionMap (pdf_texts pass1Pdf);
                   pass1Pages = length (pdf_pages pass1Pdf);
                   d' = inject_toc d (map (\<lambda>s. (marker_id s, startPage s))
                                        (filter (\<lambda>s. marker_id s \<noteq> js ''TOC'') sectionMap))
               in (case page_pdf b d' of
                     Inl e \<Rightarrow> Inl e
                   | Inr pass2Pdf \<Rightarrow>
                       let pass2Pages = length (pdf_pages pass2Pdf);
                           warnings = (if pass1Pages \<noteq> pass2Pages
                                       then [Warn_page_count pass1Pages pass2Pages] else [])
                       in Inr (warnings,
                               overlay_pages (widthOfTextAtSize b) (layout_of cfg) version sectionMap 0
                                 (pdf_pages pass2Pdf)))))"

section \<open>Publishing\<close>

text \<open>
  The two stores the publish step writes: the key-value store, whose single key
  \<^verbatim>\<open>version\<close> holds a \<open>VersionMeta\<close> or nothing, and the bucket of objects by key.
\<close>

record 'b store =
  kv_version :: "VersionMeta option"
  r2_objects :: "jsstring \<rightharpoonup> 'b"

definition zero_version :: VersionMeta where
  "zero_version = \<lparr>major = 0, minor = 0, patch = 0\<rparr>"

definition valid_bumps :: "jsstring list" where
  "valid_bumps = [js ''major'', js ''minor'', js ''patch'']"

subsection \<open>The publish script\<close>

text \<open>
  What the script's environment decides: the browser and renderer, whether the command
  that reads the version succeeds with output that parses, the exit status of the
  command that uploads the object (\<open>None\<close> when it has no status), and whether the
  request that writes the version throws.
\<close>

record script_world =
  chrome :: browser
  kv_get_ok :: bool
  r2_put_status :: "nat option"
  kv_put_error :: "exn option"

datatype outcome = Completed | Exited nat | Thrown exn

text \<open>\<^verbatim>\<open>getCurrentVersion()\<close>: the stored version, or \<open>{0, 0, 0}\<close> when the command fails,
  prints nothing or prints what does not parse.\<close>

definition getCurrentVersion :: "script_world \<Rightarrow> 'b store \<Rightarrow> VersionMeta" where
  "getCurrentVersion w st =
     (if kv_get_ok w then (case kv_version st of Some v \<Rightarrow> v | None \<Rightarrow> zero_version)
      else zero_version)"

text \<open>
  The top level of the script, with \<open>argv2\<close> for \<^verbatim>\<open>process.argv[2]\<close>: validation of the
  bump kind (\<^verbatim>\<open>process.exit(1)\<close>), the next version, the generation of the PDF, the upload
  to the bucket (\<^verbatim>\<open>process.exit(1)\<close> when the status is not 0), the write of the version
  (\<^verbatim>\<open>kvPut\<close> throws when the response is not ok). An exception that nothing catches ends
  the run.
\<close>

definition publish_script ::
  "script_world \<Rightarrow> pdf_config \<Rightarrow> jsstring option \<Rightarrow> (page list) store
     \<Rightarrow> outcome \<times> event list \<times> (page list) store" where
  "publish_script w cfg argv2 st =
     (let bump = (case argv2 of Some a \<Rightarrow> a | None \<Rightarrow> js ''patch'') in
      if bump \<notin> set valid_bumps then (Exited 1, [], st)
      else
        let current = getCurrentVersion w st;
            nextv = bumpVersion current bump;
            version = ver nextv
        in (case generate (chrome w) cfg version of
              Inl e \<Rightarrow> (Thrown e, [], st)
            | Inr (warnings, finalPdf) \<Rightarrow>
                if r2_put_status w \<noteq> Some 0 then (Exited 1, warnings, st)
                else
                  let st1 = st\<lparr>r2_objects := (r2_objects st)(r2Key version \<mapsto> finalPdf)\<rparr>;
                      ev1 = warnings @ [R2_put (r2Key version)]
                  in (case kv_put_error w of
                        Some e \<Rightarrow> (Thrown e, ev1, st1)
                      | None \<Rightarrow> (Completed, ev1 @ [KV_put nextv], st1\<lparr>kv_version := Some nextv\<rparr>))))"

subsection \<open>The worker\<close>

text \<open>
  The \<^verbatim>\<open>fetch\<close> handler of \<^verbatim>\<open>src/index.ts\<close>. A request is its method, its path, its
  \<^verbatim>\<open>Authorization\<close> header and its \<^verbatim>\<open>bump\<close> query parameter. The environment decides the
  secret, what \<^verbatim>\<open>generatePdf\<close> returns or throws, and whether the two writes throw. The
  result is the status of the response, or the exception that leaves the handler.
\<close>

record request =
  req_method :: jsstring
  req_pathname :: jsstring
  req_authorization :: "jsstring option"
  req_bump :: "jsstring option"

record 'b worker_env =
  GENERATE_SECRET :: "jsstring option"
  generatePdf :: "exn + 'b"
  assets_put_error :: "exn option"
  meta_put_error :: "exn option"

datatype response = Response nat | Unhandled exn

definition versionString :: "VersionMeta \<Rightarrow> jsstring" where
  "versionString v = String_nat (major v) @ js ''.'' @ String_nat (minor v) @ js ''.'' @ String_nat (patch v)"

definition worker_fetch ::
  "'b worker_env \<Rightarrow> request \<Rightarrow> 'b store \<Rightarrow> response \<times> event list \<times> 'b store" where
  "worker_fetch env req st =
     (if req_method req = js ''OPTIONS'' then (Response 204, [], st)
      else if req_method req = js ''GET'' \<and> req_pathname req = js ''/pdf'' then
        (case kv_version st of
           None \<Rightarrow> (Response 404, [], st)
         | Some meta \<Rightarrow>
             (case r2_objects st (r2Key (versionString meta)) of
                None \<Rightarrow> (Response 404, [], st)
              | Some object \<Rightarrow> (Response 200, [], st)))
      else if req_method req = js ''GET'' \<and> req_pathname req = js ''/pdf/versions'' then
        (Response 200, [], st)
      else if req_method req = js ''POST'' \<and> req_pathname req = js ''/generate'' then
        (if (case GENERATE_SECRET env of
               None \<Rightarrow> True
             | Some secret \<Rightarrow> secret = [] \<or> req_authorization req \<noteq> Some (js ''Bearer '' @ secret))
         then (Response 401, [], st)
         else
           let bump = (case req_bump req of Some a \<Rightarrow> a | None \<Rightarrow> js ''patch'') in
           if bump \<notin> set valid_bumps then (Response 400, [], st)
           else
             let current = (case kv_version st of Some v \<Rightarrow> v | None \<Rightarrow> zero_version);
                 nextv = bumpVersion current bump;
                 version = versionString nextv
             in (case generatePdf env of
                   Inl e \<Rightarrow> (Response 500, [], st)
                 | Inr pdf \<Rightarrow>
                     (case assets_put_error env of
                        Some e \<Rightarrow> (Unhandled e, [], st)
                      | None \<Rightarrow>
                          let st1 = st\<lparr>r2_objects := (r2_objects st)(r2Key version \<mapsto> pdf)\<rparr> in
                          (case meta_put_error env of
                             Some e \<Rightarrow> (Unhandled e, [R2_put (r2Key version)], st1)
                           | None \<Rightarrow>
                               (Response 200, [R2_put (r2Key version), KV_put nextv],
                                st1\<lparr>kv_version := Some nextv\<rparr>)))))
      else (Response 404, [], st))"

section \<open>The marker grammar in the words of the specification\<close>











section \<open>Concrete inputs\<close>

text \<open>A document of four pages: a cover, the table of contents, a page without marker
  and the first section.\<close>

definition example_pages :: "jsstring list" where
  "example_pages = [js ''cover'', js ''FWMARK-TOC'', js ''toc'', js ''a FWMARK-01-INIT.SYS b'']"


text \<open>
  A text measure for the concrete inputs: every character is 0.6 of the font size wide,
  the advance width of Courier. A layout, a page of A5 size in points without content,
  and a configuration from which such a layout is computed.
\<close>

definition courier6 :: "jsstring \<Rightarrow> jsnum \<Rightarrow> jsnum" where
  "courier6 t sz = num_mul (Num (of_nat (length t) * (3 / 5))) sz"

definition example_layout :: layout where
  "example_layout =
     \<lparr>textColor = hexToRgb (js ''#3a6640''), borderColor = hexToRgb (js ''#b8deba''),
      pnColor = hexToRgb (js ''#4a7a52''), hFontSize = Num 10, pnFontSize = Num 10,
      topMarginPt = Num 40, bottomMarginPt = Num 30, sideMarginPt = Num 40, yPnPt = Num 12,
      sectionPrefix = js ''# ''\<rparr>"

definition blank_page :: page where
  "blank_page = \<lparr>width = Num 420, height = Num 595, content = []\<rparr>"

definition example_cfg :: pdf_config where
  "example_cfg =
     \<lparr>page_format = js ''A5'', margin_top = js ''1.5cm'', margin_right = js ''1.5cm'',
      margin_bottom = js ''1.2cm'', margin_left = js ''1.5cm'',
      header_textColor = js ''#3a6640'', header_borderColor = js ''#b8deba'',
      header_fontSize = Num 7, header_sectionPrefix = js ''# '',
      pageNumber_color = js ''#4a7a52'', pageNumber_fontSize = Num 6,
      pageNumber_yFromBottom = js ''0.5cm''\<rparr>"

text \<open>A browser whose second rendering has one page more than the first, as when the
  injected page number makes the table of contents longer; the two renderings.\<close>

definition drifting_browser :: browser where
  "drifting_browser =
     \<lparr>goto_ready = Inr [js ''toc-pn-01'' \<mapsto> js ''?''],
      page_pdf = (\<lambda>d. if d (js ''toc-pn-01'') = Some (js ''2'')
                      then Inr \<lparr>pdf_pages = [blank_page, blank_page, blank_page],
                                pdf_texts = [js ''cover'', js ''toc'', js ''FWMARK-01-INIT.SYS'']\<rparr>
                      else Inr \<lparr>pdf_pages = [blank_page, blank_page],
                                pdf_texts = [js ''cover'', js ''FWMARK-01-INIT.SYS'']\<rparr>),
      widthOfTextAtSize = courier6\<rparr>"

definition drifting_map :: "SectionMarker list" where
  "drifting_map = [\<lparr>marker_id = js ''01'', label = js ''INIT.SYS'', startPage = 2\<rparr>]"

definition drifting_pass1 :: rendered where
  "drifting_pass1 = \<lparr>pdf_pages = [blank_page, blank_page],
                      pdf_texts = [js ''cover'', js ''FWMARK-01-INIT.SYS'']\<rparr>"

definition drifting_pass2 :: rendered where
  "drifting_pass2 = \<lparr>pdf_pages = [blank_page, blank_page, blank_page],
                      pdf_texts = [js ''cover'', js ''toc'', js ''FWMARK-01-INIT.SYS'']\<rparr>"

text \<open>Environments of the script and of the worker that differ in whether the upload
  of the object succeeds; an empty pair of stores; a request to generate.\<close>

definition world_with :: "nat option \<Rightarrow> exn option \<Rightarrow> script_world" where
  "world_with status kv_err =
     \<lparr>chrome = drifting_browser, kv_get_ok = True, r2_put_status = status, kv_put_error = kv_err\<rparr>"

definition empty_store :: "(page list) store" where
  "empty_store = \<lparr>kv_version = None, r2_objects = Map.empty\<rparr>"

definition v001 :: VersionMeta where
  "v001 = \<lparr>major = 0, minor = 0, patch = 1\<rparr>"

definition v010 :: VersionMeta where
  "v010 = \<lparr>major = 0, minor = 1, patch = 0\<rparr>"

definition generate_request :: "jsstring option \<Rightarrow> request" where
  "generate_request b =
     \<lparr>req_method = js ''POST'', req_pathname = js ''/generate'',
      req_authorization = Some (js ''Bearer s3cret''), req_bump = b\<rparr>"

definition worker_with :: "exn option \<Rightarrow> (page list) worker_env" where
  "worker_with put_err =
     \<lparr>GENERATE_SECRET = Some (js ''s3cret''), generatePdf = Inr [blank_page],
      assets_put_error = put_err, meta_put_error = None\<rparr>"



section \<open>Properties\<close>

text \<open>Facts for evaluating the definitions on concrete inputs.\<close>

lemmas char_class_defs = is_space_def is_word_def is_label_def is_upper_def is_lower_def is_digit_def

lemmas regex_eval = js_def MARKER_RE_def opt_group_def char_class_defs

lemmas extract_eval = extractSectionMap_def page_markers_def resolve_label_def TOC_TITLE_def regex_eval







subsection \<open>Bump arithmetic\<close>

text \<open>
  Claim C7. For every version \<open>v\<close>: bumping with \<^verbatim>\<open>"major"\<close> gives
  \<open>{major + 1, 0, 0}\<close>, with \<^verbatim>\<open>"minor"\<close> gives \<open>{major, minor + 1, 0}\<close>, with
  \<^verbatim>\<open>"patch"\<close> gives \<open>{major, minor, patch + 1}\<close>; in particular from \<open>{1,2,3}\<close> the three
  kinds give \<open>{2,0,0}\<close>, \<open>{1,3,0}\<close> and \<open>{1,2,4}\<close>.
\<close>

theorem bumpVersion_arithmetic:
  "bumpVersion v (js ''major'') = \<lparr>major = major v + 1, minor = 0, patch = 0\<rparr>
   \<and> bumpVersion v (js ''minor'') = \<lparr>major = major v, minor = minor v + 1, patch = 0\<rparr>
   \<and> bumpVersion v (js ''patch'') = \<lparr>major = major v, minor = minor v, patch = patch v + 1\<rparr>
   \<and> bumpVersion \<lparr>major = 1, minor = 2, patch = 3\<rparr> (js ''major'') = \<lparr>major = 2, minor = 0, patch = 0\<rparr>
   \<and> bumpVersion \<lparr>major = 1, minor = 2, patch = 3\<rparr> (js ''minor'') = \<lparr>major = 1, minor = 3, patch = 0\<rparr>
   \<and> bumpVersion \<lparr>major = 1, minor = 2, patch = 3\<rparr> (js ''patch'') = \<lparr>major = 1, minor = 2, patch = 4\<rparr>"
  by (simp add: bumpVersion_def js_def)

subsection \<open>What the marker expression matches\<close>

text \<open>
  The backtracking search finds a match at the start of \<open>s\<close> exactly when \<open>s\<close> is
  \<^verbatim>\<open>FWMARK-\<close>, a non-empty run of word characters, optionally \<^verbatim>\<open>-\<close> and a non-empty run of
  label characters, and a rest that is empty or starts with white space; the captures
  and the rest are then determined (\<open>MARKER_RE_iff\<close>).
\<close>

lemma stops_simps [simp]: "stops P [] = True" "stops P (y # ys) = (\<not> P y)"
  by (simp_all add: stops_def)





lemma dash_not_space: "\<not> is_space 45"
  by (simp add: is_space_def)


lemma dash_not_label: "\<not> is_label 45"
  by (simp add: is_label_def is_upper_def is_digit_def)

lemma js_dash: "js ''-'' = [45]"
  by (simp add: js_def)












subsection \<open>The scan over the pages\<close>


lemma page_markers_startPage: "m \<in> set (page_markers n t) \<Longrightarrow> startPage m = n"
  by (auto simp: page_markers_def)

lemma scan_pages_sorted:
  "sorted (map startPage acc) \<Longrightarrow> \<forall>m\<in>set acc. startPage m \<le> i \<Longrightarrow>
     sorted (map startPage (scan_pages i ts acc))"
proof (induction ts arbitrary: i acc)
  case Nil
  then show ?case by simp
next
  case (Cons t ts)
  have 1: "sorted (map startPage (page_markers (i + 1) t))"
    by (simp add: page_markers_def comp_def case_prod_beta sorted_replicate map_replicate_const[symmetric] del: map_replicate_const)
       (simp add: sorted_wrt_iff_nth_less)
  have "sorted (map startPage (acc @ page_markers (i + 1) t))"
    using Cons.prems 1 by (auto simp: sorted_append dest!: page_markers_startPage)
  moreover have "\<forall>m\<in>set (acc @ page_markers (i + 1) t). startPage m \<le> i + 1"
    using Cons.prems by (auto dest!: page_markers_startPage)
  ultimately show ?case using Cons.IH[of "acc @ page_markers (i + 1) t" "i + 1"] by simp
qed

lemma discovery_sorted: "sorted (map startPage (scan_pages 0 pageTexts []))"
  by (rule scan_pages_sorted) simp_all

lemma extractSectionMap_discovery: "extractSectionMap pageTexts = scan_pages 0 pageTexts []"
  by (simp add: extractSectionMap_def sort_key_id_if_sorted discovery_sorted)

lemma extractSectionMap_sorted: "sorted (map startPage (extractSectionMap pageTexts))"
  by (simp add: extractSectionMap_discovery discovery_sorted)



lemma example_map:
  "extractSectionMap example_pages =
     [\<lparr>marker_id = js ''TOC'', label = TOC_TITLE, startPage = 2\<rparr>,
      \<lparr>marker_id = js ''01'', label = js ''INIT.SYS'', startPage = 4\<rparr>]"
  by (simp add: example_pages_def extract_eval)


text \<open>
  Claim C3. For every list of page texts, scanned in increasing page order, the section
  map has its \<open>startPage\<close> values in non-decreasing order; the sequence of discovery is
  already in that order, so the final stable sort changes nothing, and the entries of
  equal \<open>startPage\<close> stand in their order of discovery.
\<close>

theorem sectionMap_sorted_stable:
  "sorted (map startPage (extractSectionMap pageTexts))
   \<and> sorted (map startPage (scan_pages 0 pageTexts []))
   \<and> extractSectionMap pageTexts = scan_pages 0 pageTexts []
   \<and> filter (\<lambda>m. startPage m = k) (extractSectionMap pageTexts)
       = filter (\<lambda>m. startPage m = k) (scan_pages 0 pageTexts [])"
  by (simp add: extractSectionMap_sorted discovery_sorted extractSectionMap_def sort_key_stable
        sort_key_id_if_sorted)

subsection \<open>The label of a page\<close>

lemma label_scan_None: "label_scan sm n p = None \<longleftrightarrow> (\<forall>j<n. p < startPage (sm ! j))"
  by (induction n) (auto simp: less_Suc_eq not_le)

lemma label_scan_Some:
  "label_scan sm n p = Some x \<longleftrightarrow>
     (\<exists>i<n. startPage (sm ! i) \<le> p \<and> x = label (sm ! i) \<and> (\<forall>j. i < j \<and> j < n \<longrightarrow> p < startPage (sm ! j)))"
proof (induction n)
  case 0
  then show ?case by simp
next
  case (Suc n)
  show ?case
  proof (cases "startPage (sm ! n) \<le> p")
    case True
    have "(\<exists>i<Suc n. startPage (sm ! i) \<le> p \<and> x = label (sm ! i) \<and> (\<forall>j. i < j \<and> j < Suc n \<longrightarrow> p < startPage (sm ! j)))
          \<longleftrightarrow> x = label (sm ! n)" (is "?L \<longleftrightarrow> ?R")
    proof
      assume ?L
      then obtain i where i: "i < Suc n" "x = label (sm ! i)" "\<forall>j. i < j \<and> j < Suc n \<longrightarrow> p < startPage (sm ! j)"
        by blast
      have "i = n"
      proof (rule ccontr)
        assume "i \<noteq> n"
        with i(1) have "i < n" by simp
        with i(3) have "p < startPage (sm ! n)" by simp
        with True show False by simp
      qed
      with i(2) show ?R by simp
    next
      assume ?R
      with True show ?L by (intro exI[of _ n]) simp
    qed
    with True show ?thesis by auto
  next
    case False
    have "(\<exists>i<Suc n. startPage (sm ! i) \<le> p \<and> x = label (sm ! i) \<and> (\<forall>j. i < j \<and> j < Suc n \<longrightarrow> p < startPage (sm ! j)))
          \<longleftrightarrow> (\<exists>i<n. startPage (sm ! i) \<le> p \<and> x = label (sm ! i) \<and> (\<forall>j. i < j \<and> j < n \<longrightarrow> p < startPage (sm ! j)))"
      (is "?L \<longleftrightarrow> ?R")
    proof
      assume ?L
      then obtain i where i: "i < Suc n" "startPage (sm ! i) \<le> p" "x = label (sm ! i)"
          "\<forall>j. i < j \<and> j < Suc n \<longrightarrow> p < startPage (sm ! j)" by blast
      with False have "i < n" by (cases "i = n") auto
      with i show ?R by (intro exI[of _ i]) auto
    next
      assume ?R
      then obtain i where i: "i < n" "startPage (sm ! i) \<le> p" "x = label (sm ! i)"
          "\<forall>j. i < j \<and> j < n \<longrightarrow> p < startPage (sm ! j)" by blast
      with False show ?L by (intro exI[of _ i]) (auto simp: less_Suc_eq)
    qed
    with False Suc show ?thesis by simp
  qed
qed

text \<open>
  Claim C2. Let \<open>sm\<close> be a section map produced by the extractor and \<open>p\<close> a page number.
  \<open>getLabelForPage sm p\<close> is none when the map is empty or \<open>p\<close> is smaller than the first
  marker's \<open>startPage\<close>. Otherwise it is the label of a marker whose \<open>startPage\<close> is the
  greatest one not above \<open>p\<close> (the last such marker of the map): the label of marker \<open>i\<close>
  for every \<open>p\<close> from its \<open>startPage\<close> up to, not including, the \<open>startPage\<close> of marker
  \<open>i + 1\<close>, and the label of the last marker from its \<open>startPage\<close> on.
\<close>

theorem getLabelForPage_sections:
  "sm = extractSectionMap pageTexts \<Longrightarrow>
     ((sm = [] \<or> (sm \<noteq> [] \<and> p < startPage (hd sm))) \<longrightarrow> getLabelForPage sm p = None)
   \<and> (sm \<noteq> [] \<and> startPage (hd sm) \<le> p \<longrightarrow>
        (\<exists>i<length sm. getLabelForPage sm p = Some (label (sm ! i)) \<and> startPage (sm ! i) \<le> p
           \<and> (\<forall>j<length sm. startPage (sm ! j) \<le> p \<longrightarrow> startPage (sm ! j) \<le> startPage (sm ! i) \<and> j \<le> i)))
   \<and> (\<forall>i. i + 1 < length sm \<and> startPage (sm ! i) \<le> p \<and> p < startPage (sm ! (i + 1)) \<longrightarrow>
          getLabelForPage sm p = Some (label (sm ! i)))
   \<and> (sm \<noteq> [] \<and> startPage (last sm) \<le> p \<longrightarrow> getLabelForPage sm p = Some (label (last sm)))"
proof -
  assume sm: "sm = extractSectionMap pageTexts"
  then have sorted: "sorted (map startPage sm)" by (simp add: extractSectionMap_sorted)
  have mono: "startPage (sm ! i) \<le> startPage (sm ! j)" if "i \<le> j" "j < length sm" for i j
    using sorted that by (auto simp: sorted_iff_nth_mono)
  have A: "getLabelForPage sm p = None" if "sm = [] \<or> (sm \<noteq> [] \<and> p < startPage (hd sm))"
  proof -
    have "p < startPage (sm ! j)" if j: "j < length sm" for j
    proof -
      from j \<open>sm = [] \<or> (sm \<noteq> [] \<and> p < startPage (hd sm))\<close> have "p < startPage (sm ! 0)"
        by (auto simp: hd_conv_nth)
      also have "startPage (sm ! 0) \<le> startPage (sm ! j)" using mono[of 0 j] j by simp
      finally show ?thesis .
    qed
    then show ?thesis by (simp add: getLabelForPage_def label_scan_None)
  qed
  have B: "\<exists>i<length sm. getLabelForPage sm p = Some (label (sm ! i)) \<and> startPage (sm ! i) \<le> p
           \<and> (\<forall>j<length sm. startPage (sm ! j) \<le> p \<longrightarrow> startPage (sm ! j) \<le> startPage (sm ! i) \<and> j \<le> i)"
    if ne: "sm \<noteq> []" and le: "startPage (hd sm) \<le> p"
  proof -
    from ne le have "\<not> (\<forall>j<length sm. p < startPage (sm ! j))"
      by (auto simp: hd_conv_nth not_less intro!: exI[of _ 0])
    then obtain x where "getLabelForPage sm p = Some x"
      by (cases "getLabelForPage sm p") (auto simp: getLabelForPage_def label_scan_None)
    then obtain i where i: "i < length sm" "startPage (sm ! i) \<le> p" "x = label (sm ! i)"
        "\<forall>j. i < j \<and> j < length sm \<longrightarrow> p < startPage (sm ! j)"
      by (auto simp: getLabelForPage_def label_scan_Some)
    have "startPage (sm ! j) \<le> startPage (sm ! i) \<and> j \<le> i" if j: "j < length sm" "startPage (sm ! j) \<le> p" for j
    proof -
      have "j \<le> i" using i(4) j by (metis not_le)
      with mono[of j i] i(1) show ?thesis by simp
    qed
    with i \<open>getLabelForPage sm p = Some x\<close> show ?thesis by (intro exI[of _ i]) auto
  qed
  have C: "getLabelForPage sm p = Some (label (sm ! i))"
    if "i + 1 < length sm" "startPage (sm ! i) \<le> p" "p < startPage (sm ! (i + 1))" for i
  proof -
    have "p < startPage (sm ! j)" if j: "i < j" "j < length sm" for j
    proof -
      note \<open>p < startPage (sm ! (i + 1))\<close>
      also have "startPage (sm ! (i + 1)) \<le> startPage (sm ! j)" using mono[of "i + 1" j] j by simp
      finally show ?thesis .
    qed
    with that show ?thesis
      unfolding getLabelForPage_def label_scan_Some by (intro exI[of _ i]) auto
  qed
  have D: "getLabelForPage sm p = Some (label (last sm))" if "sm \<noteq> []" "startPage (last sm) \<le> p"
    using that unfolding getLabelForPage_def label_scan_Some
    by (intro exI[of _ "length sm - 1"]) (auto simp: last_conv_nth)
  from A B C D show ?thesis by blast
qed

theorem getLabelForPage_sections_witness:
  "getLabelForPage (extractSectionMap example_pages) 1 = None
   \<and> getLabelForPage (extractSectionMap example_pages) 3 = Some TOC_TITLE
   \<and> getLabelForPage (extractSectionMap example_pages) 4 = Some (js ''INIT.SYS'')"
  using getLabelForPage_sections[OF refl, of example_pages 1]
        getLabelForPage_sections[OF refl, of example_pages 3]
        getLabelForPage_sections[OF refl, of example_pages 4]
  by (simp add: example_map)

subsection \<open>The entries of the section map\<close>



lemma lookahead_not_dash: "lookahead r \<Longrightarrow> literal (js ''-'') r = None"
  by (cases r) (auto simp: js_dash dash_not_space)
























subsection \<open>Pages without a label\<close>

lemma overlay_pages_length: "length (overlay_pages f L v sm i ps) = length ps"
  by (induction ps arbitrary: i) auto

lemma overlay_pages_nth:
  "k < length ps \<Longrightarrow> overlay_pages f L v sm i ps ! k = overlay_page f L v sm (ps ! k) (i + k)"
proof (induction ps arbitrary: i k)
  case Nil
  then show ?case by simp
next
  case (Cons p ps)
  then show ?case by (cases k) auto
qed

lemma example_labels:
  "getLabelForPage (extractSectionMap example_pages) (Suc 0) = None"
  "getLabelForPage (extractSectionMap example_pages) 3 = Some TOC_TITLE"
  "getLabelForPage (extractSectionMap example_pages) 4 = Some (js ''INIT.SYS'')"
  by (simp_all add: example_map getLabelForPage_def)

text \<open>
  Claim C6. For every page for which \<open>getLabelForPage\<close> gives none (the cover, or every
  page when the section map is empty), the overlay draws nothing: the page, with its
  content, is returned as it was; no text and no rule is added.
\<close>

theorem overlay_skips_unlabeled:
  "(getLabelForPage sm (i + 1) = None \<longrightarrow> overlay_page f L v sm p i = p)
   \<and> (k < length ps \<and> getLabelForPage sm (k + 1) = None \<longrightarrow> overlay_pages f L v sm 0 ps ! k = ps ! k)
   \<and> overlay_pages f L v [] 0 ps = ps"
proof -
  have A: "overlay_page f L v sm p i = p" if "getLabelForPage sm (i + 1) = None" for p i
    using that by (simp add: overlay_page_def)
  have B: "overlay_pages f L v sm 0 ps ! k = ps ! k" if "k < length ps" "getLabelForPage sm (k + 1) = None"
    using that A[of k "ps ! k"] by (simp add: overlay_pages_nth)
  have C: "overlay_pages f L v [] i ps = ps" for i
    by (induction ps arbitrary: i) (simp_all add: overlay_page_def getLabelForPage_def)
  from A B C show ?thesis by blast
qed

theorem overlay_skips_unlabeled_witness:
  "overlay_page courier6 example_layout (js ''1.0.0'') (extractSectionMap example_pages) blank_page 0 = blank_page
   \<and> overlay_pages courier6 example_layout (js ''1.0.0'') (extractSectionMap example_pages) 0 [blank_page, blank_page] ! 0
       = blank_page"
  using overlay_skips_unlabeled[of "extractSectionMap example_pages" 0 courier6 example_layout "js ''1.0.0''" blank_page 0
          "[blank_page, blank_page]"]
  by (simp add: example_labels)

subsection \<open>Recto and verso\<close>







subsection \<open>Pagination drift\<close>

lemma drifting_extract:
  "extractSectionMap [js ''cover'', js ''FWMARK-01-INIT.SYS''] = drifting_map"
  by (simp add: drifting_map_def extract_eval)

lemma drifting_goto: "goto_ready drifting_browser = Inr [js ''toc-pn-01'' \<mapsto> js ''?'']"
  by (simp add: drifting_browser_def)

lemma drifting_first: "page_pdf drifting_browser [js ''toc-pn-01'' \<mapsto> js ''?''] = Inr drifting_pass1"
  by (simp add: drifting_browser_def drifting_pass1_def js_def)

lemma drifting_second:
  "page_pdf drifting_browser
     (inject_toc [js ''toc-pn-01'' \<mapsto> js ''?'']
        (map (\<lambda>s. (marker_id s, startPage s))
           (filter (\<lambda>s. marker_id s \<noteq> js ''TOC'') (extractSectionMap (pdf_texts drifting_pass1)))))
   = Inr drifting_pass2"
proof -
  have "extractSectionMap (pdf_texts drifting_pass1) = drifting_map"
    by (simp add: drifting_pass1_def drifting_extract)
  moreover have "js ''01'' \<noteq> js ''TOC''" by (simp add: js_def)
  moreover have "inject_toc [js ''toc-pn-01'' \<mapsto> js ''?''] [(js ''01'', 2)] (js ''toc-pn-01'') = Some (js ''2'')"
    by (simp add: String_nat.simps js_def)
  ultimately show ?thesis
    by (simp add: drifting_map_def drifting_browser_def drifting_pass2_def)
qed

text \<open>
  Claim C5. When both renderings succeed and their page counts differ, generation still
  succeeds: its only trace is the warning with the two counts, and its result is the
  overlay applied to the pages of pass 2 with the section map extracted from the texts of
  pass 1. The script then runs to completion when the upload and the version write
  succeed.
\<close>

theorem drift_is_warning_only:
  "goto_ready b = Inr d \<and> page_pdf b d = Inr pass1
     \<and> page_pdf b (inject_toc d (map (\<lambda>s. (marker_id s, startPage s))
                      (filter (\<lambda>s. marker_id s \<noteq> js ''TOC'') (extractSectionMap (pdf_texts pass1))))) = Inr pass2
     \<and> length (pdf_pages pass1) \<noteq> length (pdf_pages pass2) \<longrightarrow>
   generate b cfg version
     = Inr ([Warn_page_count (length (pdf_pages pass1)) (length (pdf_pages pass2))],
            overlay_pages (widthOfTextAtSize b) (layout_of cfg) version
              (extractSectionMap (pdf_texts pass1)) 0 (pdf_pages pass2))
   \<and> (chrome w = b \<and> argv2 \<in> {None, Some (js ''major''), Some (js ''minor''), Some (js ''patch'')}
        \<and> r2_put_status w = Some 0 \<and> kv_put_error w = None \<longrightarrow>
      fst (publish_script w cfg argv2 st) = Completed
      \<and> Warn_page_count (length (pdf_pages pass1)) (length (pdf_pages pass2))
           \<in> set (fst (snd (publish_script w cfg argv2 st))))"
proof (intro impI)
  assume a: "goto_ready b = Inr d \<and> page_pdf b d = Inr pass1
     \<and> page_pdf b (inject_toc d (map (\<lambda>s. (marker_id s, startPage s))
                      (filter (\<lambda>s. marker_id s \<noteq> js ''TOC'') (extractSectionMap (pdf_texts pass1))))) = Inr pass2
     \<and> length (pdf_pages pass1) \<noteq> length (pdf_pages pass2)"
  have g: "generate b cfg version
     = Inr ([Warn_page_count (length (pdf_pages pass1)) (length (pdf_pages pass2))],
            overlay_pages (widthOfTextAtSize b) (layout_of cfg) version
              (extractSectionMap (pdf_texts pass1)) 0 (pdf_pages pass2))" for version
    using a by (simp add: generate_def Let_def)
  have p: "fst (publish_script w cfg argv2 st) = Completed
      \<and> Warn_page_count (length (pdf_pages pass1)) (length (pdf_pages pass2))
           \<in> set (fst (snd (publish_script w cfg argv2 st)))"
    if "chrome w = b" "argv2 \<in> {None, Some (js ''major''), Some (js ''minor''), Some (js ''patch'')}"
       "r2_put_status w = Some 0" "kv_put_error w = None"
    using that g by (auto simp: publish_script_def Let_def valid_bumps_def)
  from g p show "generate b cfg version
     = Inr ([Warn_page_count (length (pdf_pages pass1)) (length (pdf_pages pass2))],
            overlay_pages (widthOfTextAtSize b) (layout_of cfg) version
              (extractSectionMap (pdf_texts pass1)) 0 (pdf_pages pass2))
   \<and> (chrome w = b \<and> argv2 \<in> {None, Some (js ''major''), Some (js ''minor''), Some (js ''patch'')}
        \<and> r2_put_status w = Some 0 \<and> kv_put_error w = None \<longrightarrow>
      fst (publish_script w cfg argv2 st) = Completed
      \<and> Warn_page_count (length (pdf_pages pass1)) (length (pdf_pages pass2))
           \<in> set (fst (snd (publish_script w cfg argv2 st))))"
    using g[of version] p by simp
qed

theorem drift_is_warning_only_witness:
  "generate drifting_browser example_cfg (js ''0.0.1'')
     = Inr ([Warn_page_count 2 3],
            overlay_pages courier6 (layout_of example_cfg) (js ''0.0.1'') drifting_map 0
              [blank_page, blank_page, blank_page])
   \<and> fst (publish_script \<lparr>chrome = drifting_browser, kv_get_ok = True, r2_put_status = Some 0, kv_put_error = None\<rparr>
             example_cfg None \<lparr>kv_version = None, r2_objects = Map.empty\<rparr>) = Completed"
  using drift_is_warning_only[of drifting_browser "[js ''toc-pn-01'' \<mapsto> js ''?'']"
      drifting_pass1 drifting_pass2 example_cfg "js ''0.0.1''"
      "\<lparr>chrome = drifting_browser, kv_get_ok = True, r2_put_status = Some 0, kv_put_error = None\<rparr>"
      None "\<lparr>kv_version = None, r2_objects = Map.empty\<rparr>"]
    drifting_goto drifting_first drifting_second
  by (simp add: drifting_pass1_def drifting_pass2_def drifting_extract drifting_browser_def)

subsection \<open>Order of the two writes\<close>

lemma publish_script_cases:
  assumes "publish_script w cfg argv2 st = (out, evs, st')"
  obtains
    (invalid) "out = Exited 1" "evs = []" "st' = st"
  | (render_failed) e where "out = Thrown e" "evs = []" "st' = st"
  | (upload_failed) ws where "r2_put_status w \<noteq> Some 0" "out = Exited 1" "evs = ws" "st' = st"
      "\<forall>v. KV_put v \<notin> set ws"
  | (kv_failed) e ws nextv final where "r2_put_status w = Some 0" "out = Thrown e"
      "evs = ws @ [R2_put (r2Key (ver nextv))]" "\<forall>v. KV_put v \<notin> set ws"
      "st' = st\<lparr>r2_objects := (r2_objects st)(r2Key (ver nextv) \<mapsto> final)\<rparr>"
  | (published) ws nextv final where "r2_put_status w = Some 0" "out = Completed"
      "evs = ws @ [R2_put (r2Key (ver nextv)), KV_put nextv]" "\<forall>v. KV_put v \<notin> set ws"
      "st' = st\<lparr>r2_objects := (r2_objects st)(r2Key (ver nextv) \<mapsto> final), kv_version := Some nextv\<rparr>"
proof -
  have warn: "\<forall>v. KV_put v \<notin> set ws" if "generate b cfg version = Inr (ws, final)" for b version ws final
    using that by (auto simp: generate_def Let_def split: sum.splits if_splits)
  show thesis
    using assms warn
    by (auto simp: publish_script_def Let_def split: if_splits sum.splits prod.splits option.splits
          intro: invalid render_failed upload_failed kv_failed published)
qed

lemma worker_fetch_cases:
  assumes "worker_fetch env req st = (resp, evs, st')"
  obtains
    (no_write) "evs = []" "st' = st" "resp \<noteq> Response 200 \<or> req_method req = js ''GET''"
  | (blob_failed) e where "assets_put_error env = Some e" "resp = Unhandled e" "evs = []" "st' = st"
  | (kv_failed) e nextv pdf where "assets_put_error env = None" "resp = Unhandled e"
      "evs = [R2_put (r2Key (versionString nextv))]"
      "st' = st\<lparr>r2_objects := (r2_objects st)(r2Key (versionString nextv) \<mapsto> pdf)\<rparr>"
  | (published) nextv pdf where "assets_put_error env = None" "resp = Response 200"
      "evs = [R2_put (r2Key (versionString nextv)), KV_put nextv]"
      "st' = st\<lparr>r2_objects := (r2_objects st)(r2Key (versionString nextv) \<mapsto> pdf), kv_version := Some nextv\<rparr>"
  using assms
  by (auto simp: worker_fetch_def Let_def split: if_splits sum.splits prod.splits option.splits
        intro: no_write blob_failed kv_failed published)

lemma drifting_generate:
  "generate drifting_browser cfg version
     = Inr ([Warn_page_count 2 3],
            overlay_pages courier6 (layout_of cfg) version drifting_map 0 [blank_page, blank_page, blank_page])"
  using drifting_second
  by (simp add: generate_def drifting_goto drifting_first Let_def)
     (simp add: drifting_pass1_def drifting_pass2_def drifting_extract drifting_browser_def)

lemma ver_v001: "ver v001 = js ''0.0.1''"
  by (simp add: ver_def v001_def String_nat.simps js_def)

lemma versionString_v010: "versionString v010 = js ''0.1.0''"
  by (simp add: versionString_def v010_def String_nat.simps js_def)

lemma bump_patch_zero: "bumpVersion zero_version (js ''patch'') = v001"
  by (simp add: bumpVersion_def zero_version_def v001_def js_def)

lemma bump_minor_zero: "bumpVersion zero_version (js ''minor'') = v010"
  by (simp add: bumpVersion_def zero_version_def v010_def js_def)

lemma patch_valid: "js ''patch'' \<in> set valid_bumps" "js ''minor'' \<in> set valid_bumps"
  by (simp_all add: valid_bumps_def)

lemma run_upload_failed:
  "publish_script (world_with (Some 2) None) example_cfg None empty_store
     = (Exited 1, [Warn_page_count 2 3], empty_store)"
  by (simp add: publish_script_def world_with_def patch_valid drifting_generate Let_def)

lemma run_published:
  "publish_script (world_with (Some 0) None) example_cfg None empty_store
     = (Completed, [Warn_page_count 2 3, R2_put (r2Key (js ''0.0.1'')), KV_put v001],
        \<lparr>kv_version = Some v001,
         r2_objects = [r2Key (js ''0.0.1'') \<mapsto>
            overlay_pages courier6 (layout_of example_cfg) (js ''0.0.1'') drifting_map 0
              [blank_page, blank_page, blank_page]]\<rparr>)"
  by (simp add: publish_script_def world_with_def patch_valid drifting_generate Let_def
        getCurrentVersion_def empty_store_def bump_patch_zero ver_v001)

lemma secret_ok: "js ''s3cret'' \<noteq> []" "js ''POST'' \<noteq> js ''OPTIONS''" "js ''POST'' \<noteq> js ''GET''"
  by (simp_all add: js_def)

lemma bearer: "js ''Bearer '' @ js ''s3cret'' = js ''Bearer s3cret''"
  by (simp add: js_def)

lemma fetch_upload_failed:
  "worker_fetch (worker_with (Some (js ''put failed''))) (generate_request (Some (js ''minor''))) empty_store
     = (Unhandled (js ''put failed''), [], empty_store)"
  by (simp add: worker_fetch_def worker_with_def generate_request_def secret_ok bearer patch_valid Let_def)

lemma fetch_published:
  "worker_fetch (worker_with None) (generate_request (Some (js ''minor''))) empty_store
     = (Response 200, [R2_put (r2Key (js ''0.1.0'')), KV_put v010],
        \<lparr>kv_version = Some v010, r2_objects = [r2Key (js ''0.1.0'') \<mapsto> [blank_page]]\<rparr>)"
  by (simp add: worker_fetch_def worker_with_def generate_request_def secret_ok bearer patch_valid Let_def
        empty_store_def bump_minor_zero versionString_v010)

lemma world_with_sel: "r2_put_status (world_with status kv_err) = status"
  by (simp add: world_with_def)

lemma worker_with_sel: "assets_put_error (worker_with put_err) = put_err"
  by (simp add: worker_with_def)

lemma generate_request_sel: "req_method (generate_request b) = js ''POST''"
  by (simp add: generate_request_def)

text \<open>
  Claim C8. In every run of the publish script and in every request to the worker: a
  write of the version \<open>v\<close> happens only as the step right after the write of the object
  \<^verbatim>\<open>manual-v<v>.pdf\<close> has succeeded, and that object is then in the bucket; when the
  write of the object fails, the run does not complete (the request does not answer
  200), the stores are as before and no version is written; without a version write the
  stored version is unchanged; and if the stored version pointed to an existing object
  before, it does so afterwards.
\<close>

theorem version_written_after_blob:
  "(publish_script w cfg argv2 st = (out, evs, st') \<longrightarrow>
      (KV_put v \<in> set evs \<longrightarrow>
         r2_put_status w = Some 0 \<and> (\<exists>ws. evs = ws @ [R2_put (r2Key (ver v)), KV_put v])
         \<and> r2_objects st' (r2Key (ver v)) \<noteq> None \<and> kv_version st' = Some v)
      \<and> (r2_put_status w \<noteq> Some 0 \<longrightarrow>
           out \<noteq> Completed \<and> st' = st \<and> (\<forall>u. KV_put u \<notin> set evs))
      \<and> ((\<forall>u. KV_put u \<notin> set evs) \<longrightarrow> kv_version st' = kv_version st)
      \<and> ((\<forall>u. kv_version st = Some u \<longrightarrow> r2_objects st (r2Key (ver u)) \<noteq> None) \<longrightarrow>
           (\<forall>u. kv_version st' = Some u \<longrightarrow> r2_objects st' (r2Key (ver u)) \<noteq> None)))
   \<and> (worker_fetch env req wst = (resp, wevs, wst') \<longrightarrow>
      (KV_put v \<in> set wevs \<longrightarrow>
         assets_put_error env = None \<and> wevs = [R2_put (r2Key (versionString v)), KV_put v]
         \<and> r2_objects wst' (r2Key (versionString v)) \<noteq> None \<and> kv_version wst' = Some v)
      \<and> (assets_put_error env \<noteq> None \<and> req_method req = js ''POST'' \<longrightarrow> resp \<noteq> Response 200)
      \<and> (assets_put_error env \<noteq> None \<longrightarrow> wst' = wst \<and> (\<forall>u. KV_put u \<notin> set wevs))
      \<and> ((\<forall>u. KV_put u \<notin> set wevs) \<longrightarrow> kv_version wst' = kv_version wst)
      \<and> ((\<forall>u. kv_version wst = Some u \<longrightarrow> r2_objects wst (r2Key (versionString u)) \<noteq> None) \<longrightarrow>
           (\<forall>u. kv_version wst' = Some u \<longrightarrow> r2_objects wst' (r2Key (versionString u)) \<noteq> None)))"
proof (intro conjI impI)
  assume a: "publish_script w cfg argv2 st = (out, evs, st')"
  {
    assume "KV_put v \<in> set evs"
    with a show "r2_put_status w = Some 0" by (cases rule: publish_script_cases) auto
    from a \<open>KV_put v \<in> set evs\<close> show "\<exists>ws. evs = ws @ [R2_put (r2Key (ver v)), KV_put v]"
      by (cases rule: publish_script_cases) auto
    from a \<open>KV_put v \<in> set evs\<close> show "r2_objects st' (r2Key (ver v)) \<noteq> None"
      by (cases rule: publish_script_cases) auto
    from a \<open>KV_put v \<in> set evs\<close> show "kv_version st' = Some v"
      by (cases rule: publish_script_cases) auto
  }
  {
    assume "r2_put_status w \<noteq> Some 0"
    with a show "out \<noteq> Completed" by (cases rule: publish_script_cases) auto
    from a \<open>r2_put_status w \<noteq> Some 0\<close> show "st' = st" by (cases rule: publish_script_cases) auto
    from a \<open>r2_put_status w \<noteq> Some 0\<close> show "\<forall>u. KV_put u \<notin> set evs"
      by (cases rule: publish_script_cases) auto
  }
  {
    assume "\<forall>u. KV_put u \<notin> set evs"
    with a show "kv_version st' = kv_version st" by (cases rule: publish_script_cases) auto
  }
  {
    assume "\<forall>u. kv_version st = Some u \<longrightarrow> r2_objects st (r2Key (ver u)) \<noteq> None"
    with a show "\<forall>u. kv_version st' = Some u \<longrightarrow> r2_objects st' (r2Key (ver u)) \<noteq> None"
      by (cases rule: publish_script_cases) auto
  }
next
  assume a: "worker_fetch env req wst = (resp, wevs, wst')"
  {
    assume k: "KV_put v \<in> set wevs"
    with a show "assets_put_error env = None" by (cases rule: worker_fetch_cases) auto
    from a k show "wevs = [R2_put (r2Key (versionString v)), KV_put v]"
      by (cases rule: worker_fetch_cases) auto
    from a k show "r2_objects wst' (r2Key (versionString v)) \<noteq> None"
      by (cases rule: worker_fetch_cases) auto
    from a k show "kv_version wst' = Some v" by (cases rule: worker_fetch_cases) auto
  }
  {
    assume f: "assets_put_error env \<noteq> None \<and> req_method req = js ''POST''"
    have "js ''POST'' \<noteq> js ''GET''" by (simp add: js_def)
    with a f show "resp \<noteq> Response 200"
      by (cases rule: worker_fetch_cases) auto
  }
  {
    assume f: "assets_put_error env \<noteq> None"
    from a f show "wst' = wst" by (cases rule: worker_fetch_cases) auto
    from a f show "\<forall>u. KV_put u \<notin> set wevs" by (cases rule: worker_fetch_cases) auto
  }
  {
    assume "\<forall>u. KV_put u \<notin> set wevs"
    with a show "kv_version wst' = kv_version wst" by (cases rule: worker_fetch_cases) auto
  }
  {
    assume "\<forall>u. kv_version wst = Some u \<longrightarrow> r2_objects wst (r2Key (versionString u)) \<noteq> None"
    with a show "\<forall>u. kv_version wst' = Some u \<longrightarrow> r2_objects wst' (r2Key (versionString u)) \<noteq> None"
      by (cases rule: worker_fetch_cases) auto
  }
qed

theorem version_written_after_blob_witness:
  "fst (publish_script (world_with (Some 2) None) example_cfg None empty_store) \<noteq> Completed
   \<and> snd (snd (publish_script (world_with (Some 2) None) example_cfg None empty_store)) = empty_store
   \<and> fst (snd (publish_script (world_with (Some 0) None) example_cfg None empty_store))
       = [Warn_page_count 2 3] @ [R2_put (r2Key (ver v001)), KV_put v001]
   \<and> r2_objects (snd (snd (publish_script (world_with (Some 0) None) example_cfg None empty_store)))
         (r2Key (ver v001)) \<noteq> None
   \<and> fst (worker_fetch (worker_with (Some (js ''put failed''))) (generate_request (Some (js ''minor''))) empty_store)
       \<noteq> Response 200
   \<and> snd (snd (worker_fetch (worker_with (Some (js ''put failed''))) (generate_request (Some (js ''minor''))) empty_store))
       = empty_store
   \<and> r2_objects (snd (snd (worker_fetch (worker_with None) (generate_request (Some (js ''minor''))) empty_store)))
         (r2Key (versionString v010)) \<noteq> None"
  using version_written_after_blob[of "world_with (Some 2) None" example_cfg None empty_store
          "Exited 1" "[Warn_page_count 2 3]" empty_store v001
          "worker_with (Some (js ''put failed''))" "generate_request (Some (js ''minor''))" empty_store
          "Unhandled (js ''put failed'')" "[]" empty_store]
        version_written_after_blob[of "world_with (Some 0) None" example_cfg None empty_store
          Completed "[Warn_page_count 2 3, R2_put (r2Key (js ''0.0.1'')), KV_put v001]"
          "\<lparr>kv_version = Some v001,
            r2_objects = [r2Key (js ''0.0.1'') \<mapsto>
              overlay_pages courier6 (layout_of example_cfg) (js ''0.0.1'') drifting_map 0
                [blank_page, blank_page, blank_page]]\<rparr>" v001
          "worker_with None" "generate_request (Some (js ''minor''))" empty_store
          "Response 200" "[R2_put (r2Key (js ''0.1.0'')), KV_put v010]"
          "\<lparr>kv_version = Some v010, r2_objects = [r2Key (js ''0.1.0'') \<mapsto> [blank_page]]\<rparr>"]
  by (simp add: run_upload_failed run_published fetch_upload_failed fetch_published ver_v001
        versionString_v010 world_with_sel worker_with_sel generate_request_sel)

subsection \<open>Length conversion\<close>
























lemma overlay_pages_no_markers: "overlay_pages f L v [] i ps = ps"
  by (induction ps arbitrary: i) (simp_all add: overlay_page_def getLabelForPage_def)










subsection \<open>Bump kinds outside the three\<close>

text \<open>
  Claim C10. \<open>bumpVersion\<close> is total in the bump kind: for every kind that is neither
  \<^verbatim>\<open>"major"\<close> nor \<^verbatim>\<open>"minor"\<close> it returns the patch increment and signals nothing. Kinds
  outside the three are turned away by the callers before it is called: the script
  exits with status 1, the worker answers 400, and neither touches the stores.
\<close>

theorem bumpVersion_fallthrough:
  "(bump \<noteq> js ''major'' \<and> bump \<noteq> js ''minor'' \<longrightarrow>
      bumpVersion v bump = \<lparr>major = major v, minor = minor v, patch = patch v + 1\<rparr>)
   \<and> (argv2 = Some bump \<and> bump \<notin> set valid_bumps \<longrightarrow>
        publish_script w cfg argv2 st = (Exited 1, [], st))
   \<and> (req_method req = js ''POST'' \<and> req_pathname req = js ''/generate''
        \<and> GENERATE_SECRET env = Some secret \<and> secret \<noteq> []
        \<and> req_authorization req = Some (js ''Bearer '' @ secret)
        \<and> req_bump req = Some bump \<and> bump \<notin> set valid_bumps \<longrightarrow>
        worker_fetch env req wst = (Response 400, [], wst))"
proof -
  have ne: "js ''POST'' \<noteq> js ''OPTIONS''" "js ''POST'' \<noteq> js ''GET''" by (simp_all add: js_def)
  show ?thesis
    by (auto simp: bumpVersion_def publish_script_def worker_fetch_def ne)
qed

theorem bumpVersion_fallthrough_witness:
  "bumpVersion \<lparr>major = 1, minor = 2, patch = 3\<rparr> (js ''hotfix'') = \<lparr>major = 1, minor = 2, patch = 4\<rparr>
   \<and> publish_script (world_with (Some 0) None) example_cfg (Some (js ''hotfix'')) empty_store
       = (Exited 1, [], empty_store)
   \<and> worker_fetch (worker_with None) (generate_request (Some (js ''hotfix''))) empty_store
       = (Response 400, [], empty_store)"
  using bumpVersion_fallthrough[of "js ''hotfix''" "\<lparr>major = 1, minor = 2, patch = 3\<rparr>" "Some (js ''hotfix'')"
          "world_with (Some 0) None" example_cfg empty_store "generate_request (Some (js ''hotfix''))"
          "worker_with None" "js ''s3cret''" empty_store]
  by (simp add: js_def valid_bumps_def generate_request_def worker_with_def)

end
